theory Spec2Isabelle
  imports Main "HOL-Library.Sublist"
begin

section \<open>Machine phases: the reconcilers of controllers/machine_controller_phases.go\<close>

text \<open>
  The four methods of \<^verbatim>\<open>MachineReconciler\<close> in
  \<^verbatim>\<open>controllers/machine_controller_phases.go\<close> are embedded as HOL functions:
  \<^verbatim>\<open>reconcilePhase\<close>, \<^verbatim>\<open>reconcileExternal\<close>, \<^verbatim>\<open>reconcileBootstrap\<close> and
  \<^verbatim>\<open>reconcileInfrastructure\<close>. The Machine they mutate through a pointer is passed in
  and returned; a Go \<^verbatim>\<open>error\<close> is a value of the datatype \<open>error\<close>; every call
  into a collaborator outside the file (the API client, the patch helper, the watch
  tracker, the structural accessors) is answered by a field of the record \<open>env\<close> and
  recorded, in order, in the list of calls the function returns. Logging has no effect
  on any value and is left out.
\<close>

subsection \<open>Time\<close>

text \<open>
  An instant is the number of nanoseconds since Go's zero \<^verbatim>\<open>time.Time\<close>;
  \<^verbatim>\<open>(*metav1.Time).IsZero\<close> holds of a nil pointer and of the zero instant.
  A \<^verbatim>\<open>time.Duration\<close> counts nanoseconds.
\<close>

type_synonym Time = int
type_synonym Duration = int

definition Time_IsZero :: "Time option \<Rightarrow> bool" where
  "Time_IsZero t = (case t of None \<Rightarrow> True | Some i \<Rightarrow> i = 0)"

definition Second :: Duration where
  "Second = 1000000000"

definition externalReadyWait :: Duration where
  "externalReadyWait = 30 * Second"

subsection \<open>Errors\<close>

text \<open>
  The errors the file builds and inspects. \<open>RequeueAfterError d\<close> is
  \<^verbatim>\<open>&capierrors.RequeueAfterError{RequeueAfter: d}\<close>; \<open>ErrUnstructuredFieldNotFound\<close>
  is the sentinel of package util, compared by identity; \<open>StatusNotFound msg\<close> is an API
  status error whose reason is NotFound; \<open>Errorf msg\<close> is \<^verbatim>\<open>errors.Errorf\<close>, and
  any other error without a cause, with its message; \<open>Wrapf e msg\<close> is
  \<^verbatim>\<open>errors.Wrapf(e, msg)\<close>; \<open>NilPointerPanic\<close> is the run-time panic of a method
  call on a nil \<^verbatim>\<open>*unstructured.Unstructured\<close>, kept among the errors so that the
  callers of reconcileExternal are total (lemma \<open>reconcileExternal_Result\<close> shows that they
  never reach it).
\<close>

datatype error =
    RequeueAfterError Duration
  | ErrUnstructuredFieldNotFound
  | StatusNotFound string
  | Errorf string
  | Wrapf error string
  | NilPointerPanic

text \<open>\<^verbatim>\<open>errors.Cause\<close>: the innermost error of a chain of wrappers.\<close>

fun Cause :: "error \<Rightarrow> error" where
  "Cause (Wrapf e msg) = Cause e"
| "Cause e = e"

text \<open>\<^verbatim>\<open>apierrors.IsNotFound\<close>, which the file applies to a cause.\<close>

fun IsNotFound :: "error \<Rightarrow> bool" where
  "IsNotFound (StatusNotFound msg) = True"
| "IsNotFound e = False"

text \<open>
  Modelled from the spec: the interface \<^verbatim>\<open>capierrors.HasRequeueAfterError\<close> of package
  errors. The RetryAfter signal wraps a duration and is distinguishable, by kind, from
  every other error. The file builds it under a \<^verbatim>\<open>Wrapf\<close> and recognises not-found on
  \<^verbatim>\<open>errors.Cause(err)\<close>, so the kind of an error is the kind of its cause:
  \<open>HasRequeueAfterError e\<close> holds when the cause of \<open>e\<close> is a \<open>RequeueAfterError\<close>, and
  \<open>GetRequeueAfter\<close> reads its delay.
\<close>

fun HasRequeueAfterError :: "error \<Rightarrow> bool" where
  "HasRequeueAfterError e = (case Cause e of RequeueAfterError d \<Rightarrow> True | _ \<Rightarrow> False)"

fun GetRequeueAfter :: "error \<Rightarrow> Duration option" where
  "GetRequeueAfter e = (case Cause e of RequeueAfterError d \<Rightarrow> Some d | _ \<Rightarrow> None)"

text \<open>
  \<^verbatim>\<open>strings.Contains\<close>: \<open>sub\<close> occurs in \<open>s\<close> as a contiguous run.
\<close>

fun strings_Contains :: "string \<Rightarrow> string \<Rightarrow> bool" where
  "strings_Contains [] sub = (sub = [])"
| "strings_Contains (c # cs) sub = (prefix sub (c # cs) \<or> strings_Contains cs sub)"

subsection \<open>The data model\<close>

text \<open>\<^verbatim>\<open>corev1.ObjectReference\<close>, with the fields the file reads.\<close>

record ObjectReference =
  ref_Kind :: string
  ref_Namespace :: string
  ref_Name :: string
  ref_APIVersion :: string

record GroupVersionKind =
  Group :: string
  Version :: string
  Kind :: string

text \<open>
  \<^verbatim>\<open>schema.ParseGroupVersion\<close> of k8s.io/apimachinery: the empty string and \<open>/\<close>
  give the empty group and version, a string without \<open>/\<close> is a version, one \<open>/\<close>
  separates group and version, and more than one is an error (\<open>None\<close>).
\<close>

definition ParseGroupVersion :: "string \<Rightarrow> (string \<times> string) option" where
  "ParseGroupVersion gv =
     (if gv = [] \<or> gv = ''/'' then Some ([], [])
      else if count_list gv CHR ''/'' = 0 then Some ([], gv)
      else if count_list gv CHR ''/'' = 1
        then Some (takeWhile (\<lambda>c. c \<noteq> CHR ''/'') gv, tl (dropWhile (\<lambda>c. c \<noteq> CHR ''/'') gv))
      else None)"

text \<open>
  \<^verbatim>\<open>(*ObjectReference).GroupVersionKind\<close> is \<^verbatim>\<open>schema.FromAPIVersionAndKind\<close>: a
  version that does not parse leaves group and version empty and keeps the kind.
\<close>

definition ref_GroupVersionKind :: "ObjectReference \<Rightarrow> GroupVersionKind" where
  "ref_GroupVersionKind r =
     (case ParseGroupVersion (ref_APIVersion r) of
        Some (g, v) \<Rightarrow> \<lparr>Group = g, Version = v, Kind = ref_Kind r\<rparr>
      | None \<Rightarrow> \<lparr>Group = [], Version = [], Kind = ref_Kind r\<rparr>)"

text \<open>\<^verbatim>\<open>GroupVersionKind.String\<close>, which \<^verbatim>\<open>%v\<close> prints.\<close>

definition GroupVersionKind_String :: "GroupVersionKind \<Rightarrow> string" where
  "GroupVersionKind_String gvk = Group gvk @ ''/'' @ Version gvk @ '', Kind='' @ Kind gvk"

text \<open>
  The content of a schema-less object, \<^verbatim>\<open>map[string]interface{}\<close>, as a tree.
\<close>

datatype Value =
    VNull
  | VBool bool
  | VInt int
  | VString string
  | VList "Value list"
  | VMap "(string \<times> Value) list"

text \<open>
  \<^verbatim>\<open>unstructured.Unstructured\<close>. The metadata the file reads and writes through
  accessor methods (\<^verbatim>\<open>GetName\<close>, \<^verbatim>\<open>GetLabels\<close>, \<^verbatim>\<open>SetLabels\<close>,
  \<^verbatim>\<open>GetDeletionTimestamp\<close>, \<^verbatim>\<open>GroupVersionKind\<close>) is held in fields; \<open>Object\<close> is
  the rest of the content, which only the collaborators read. A nil label map is
  \<open>None\<close>.
\<close>

record Unstructured =
  obj_APIVersion :: string
  obj_Kind :: string
  obj_Name :: string
  obj_Labels :: "(string \<rightharpoonup> string) option"
  obj_DeletionTimestamp :: "Time option"
  Object :: Value

text \<open>
  \<^verbatim>\<open>(*Unstructured).GroupVersionKind\<close>: a version that does not parse gives the
  empty GroupVersionKind.
\<close>

definition obj_GroupVersionKind :: "Unstructured \<Rightarrow> GroupVersionKind" where
  "obj_GroupVersionKind u =
     (case ParseGroupVersion (obj_APIVersion u) of
        Some (g, v) \<Rightarrow> \<lparr>Group = g, Version = v, Kind = obj_Kind u\<rparr>
      | None \<Rightarrow> \<lparr>Group = [], Version = [], Kind = []\<rparr>)"

record MachineAddress =
  addr_Type :: string
  addr_Address :: string

record Bootstrap =
  ConfigRef :: "ObjectReference option"
  Data :: "string option"
  DataSecretName :: "string option"

record MachineSpec =
  ClusterName :: string
  Bootstrap :: Bootstrap
  InfrastructureRef :: ObjectReference
  ProviderID :: "string option"
  FailureDomain :: "string option"

text \<open>
  \<open>Phase\<close> is a string in the source, so an entry phase can be any string.
  \<open>FailureReason\<close> is a pointer to a \<^verbatim>\<open>MachineStatusError\<close>, a string type.
\<close>

record MachineStatus =
  NodeRef :: "ObjectReference option"
  LastUpdated :: "Time option"
  FailureReason :: "string option"
  FailureMessage :: "string option"
  Addresses :: "MachineAddress list"
  Phase :: string
  BootstrapReady :: bool
  InfrastructureReady :: bool

record Machine =
  Name :: string
  Namespace :: string
  DeletionTimestamp :: "Time option"
  Spec :: MachineSpec
  Status :: MachineStatus

record Cluster =
  cluster_Name :: string
  cluster_Paused :: bool

text \<open>
  Modelled from the spec: the constants of packages \<^verbatim>\<open>api/v1alpha3\<close> and
  \<^verbatim>\<open>errors\<close> the file names. The phases are Pending, Provisioning, Provisioned,
  Running, Failed and Deleting; \<open>ClusterLabelName\<close> is the key of the cluster-membership
  label and \<open>InvalidConfigurationMachineError\<close> the invalid-configuration failure reason.
\<close>

definition MachinePhasePending :: string where "MachinePhasePending = ''Pending''"
definition MachinePhaseProvisioning :: string where "MachinePhaseProvisioning = ''Provisioning''"
definition MachinePhaseProvisioned :: string where "MachinePhaseProvisioned = ''Provisioned''"
definition MachinePhaseRunning :: string where "MachinePhaseRunning = ''Running''"
definition MachinePhaseDeleting :: string where "MachinePhaseDeleting = ''Deleting''"
definition MachinePhaseFailed :: string where "MachinePhaseFailed = ''Failed''"
definition ClusterLabelName :: string where "ClusterLabelName = ''cluster.x-k8s.io/cluster-name''"
definition InvalidConfigurationMachineError :: string where
  "InvalidConfigurationMachineError = ''InvalidConfiguration''"

text \<open>
  Modelled from the spec: \<^verbatim>\<open>(*MachineStatus).SetTypedPhase\<close> of package
  \<^verbatim>\<open>api/v1alpha3\<close> sets the phase field to the phase it is given.
\<close>

definition SetTypedPhase :: "string \<Rightarrow> MachineStatus \<Rightarrow> MachineStatus" where
  "SetTypedPhase p st = st\<lparr>Phase := p\<rparr>"

subsection \<open>reconcilePhase\<close>

text \<open>
  Six unconditional \<^verbatim>\<open>if\<close> statements in the order of the source, then the
  timestamp. \<open>now\<close> is the value \<^verbatim>\<open>metav1.Now()\<close> returns.
\<close>

definition reconcilePhase :: "Time \<Rightarrow> Machine \<Rightarrow> Machine" where
  "reconcilePhase now m =
     (let originalPhase = Phase (Status m);
          m = (if Phase (Status m) = [] then m\<lparr>Status := SetTypedPhase MachinePhasePending (Status m)\<rparr> else m);
          m = (if BootstrapReady (Status m) \<and> \<not> InfrastructureReady (Status m)
               then m\<lparr>Status := SetTypedPhase MachinePhaseProvisioning (Status m)\<rparr> else m);
          m = (if NodeRef (Status m) \<noteq> None then m\<lparr>Status := SetTypedPhase MachinePhaseProvisioned (Status m)\<rparr> else m);
          m = (if NodeRef (Status m) \<noteq> None \<and> InfrastructureReady (Status m)
               then m\<lparr>Status := SetTypedPhase MachinePhaseRunning (Status m)\<rparr> else m);
          m = (if FailureReason (Status m) \<noteq> None \<or> FailureMessage (Status m) \<noteq> None
               then m\<lparr>Status := SetTypedPhase MachinePhaseFailed (Status m)\<rparr> else m);
          m = (if \<not> Time_IsZero (DeletionTimestamp m)
               then m\<lparr>Status := SetTypedPhase MachinePhaseDeleting (Status m)\<rparr> else m)
      in if Phase (Status m) \<noteq> originalPhase
         then m\<lparr>Status := (Status m)\<lparr>LastUpdated := Some now\<rparr>\<rparr>
         else m)"

text \<open>
  The precedence of the six rules as one expression, the last matching rule first.
  Lemma \<open>reconcilePhase_closed\<close> shows that reconcilePhase stores this phase.
\<close>

definition derive :: "Machine \<Rightarrow> string" where
  "derive m =
     (if \<not> Time_IsZero (DeletionTimestamp m) then MachinePhaseDeleting
      else if FailureReason (Status m) \<noteq> None \<or> FailureMessage (Status m) \<noteq> None
        then MachinePhaseFailed
      else if NodeRef (Status m) \<noteq> None \<and> InfrastructureReady (Status m) then MachinePhaseRunning
      else if NodeRef (Status m) \<noteq> None then MachinePhaseProvisioned
      else if BootstrapReady (Status m) \<and> \<not> InfrastructureReady (Status m)
        then MachinePhaseProvisioning
      else if Phase (Status m) = [] then MachinePhasePending
      else Phase (Status m))"

subsection \<open>Collaborators\<close>

text \<open>
  The functions of other packages the file calls. Each is a field of \<open>env\<close>, a function
  of the arguments the call passes, so that a statement about the file holds for every
  behaviour of its collaborators. A Go result \<^verbatim>\<open>(v, err)\<close> whose \<open>v\<close> is read only when
  \<^verbatim>\<open>err == nil\<close> is a sum, \<open>Inl\<close> the error.
  \<^item> \<open>normalize\<close>: the version the contract rule selects for a reference, or an error;
  \<^item> \<open>external_Get\<close>: \<^verbatim>\<open>external.Get(ctx, r.Client, ref, namespace)\<close>;
  \<^item> \<open>annotations_IsPaused\<close>: \<^verbatim>\<open>annotations.IsPaused(cluster, obj)\<close>;
  \<^item> \<open>patch_NewHelper\<close>: \<^verbatim>\<open>patch.NewHelper(obj, r.Client)\<close>; the helper is the
    object as it was at that call;
  \<^item> \<open>SetControllerReference\<close>: \<^verbatim>\<open>controllerutil.SetControllerReference(m, obj, r.scheme)\<close>,
    which writes into \<open>obj\<close>;
  \<^item> \<open>patchHelper_Patch\<close>: \<^verbatim>\<open>patchHelper.Patch(ctx, obj)\<close>, given the helper's object
    and the object to commit, which it may refresh;
  \<^item> \<open>externalTracker_Watch\<close>: \<^verbatim>\<open>r.externalTracker.Watch(logger, obj, ...)\<close>;
  \<^item> \<open>external_FailuresFrom\<close>, \<open>external_IsReady\<close>: the structural reads of
    package external;
  \<^item> \<open>NestedString\<close>: \<^verbatim>\<open>unstructured.NestedString(obj.Object, fields...)\<close>, its
    \<^verbatim>\<open>found\<close> result being dropped by the file;
  \<^item> \<open>UnmarshalField_string\<close>: \<^verbatim>\<open>util.UnstructuredUnmarshalField\<close> into a local
    string, \<open>Inr\<close> the string after the call;
  \<^item> \<open>UnmarshalField_addresses\<close>: the same into \<^verbatim>\<open>&m.Status.Addresses\<close>, given the
    slice before the call and returning the slice after it, also beside an error;
  \<^item> \<open>fmt_q\<close>: what the verb \<^verbatim>\<open>%q\<close> prints for a string;
  \<^item> \<open>RequeueAfterError_Error\<close>: what \<^verbatim>\<open>(*RequeueAfterError).Error\<close> prints for a
    delay;
  \<^item> \<open>FieldNotFound_Error\<close>: the message of \<^verbatim>\<open>util.ErrUnstructuredFieldNotFound\<close>.
\<close>

record env =
  normalize :: "ObjectReference \<Rightarrow> error + string"
  external_Get :: "ObjectReference \<Rightarrow> string \<Rightarrow> error + Unstructured"
  annotations_IsPaused :: "Cluster \<Rightarrow> Unstructured \<Rightarrow> bool"
  patch_NewHelper :: "Unstructured \<Rightarrow> error option"
  SetControllerReference :: "Machine \<Rightarrow> Unstructured \<Rightarrow> error + Unstructured"
  patchHelper_Patch :: "Unstructured \<Rightarrow> Unstructured \<Rightarrow> error + Unstructured"
  externalTracker_Watch :: "Unstructured \<Rightarrow> error option"
  external_FailuresFrom :: "Unstructured \<Rightarrow> error + string \<times> string"
  external_IsReady :: "Unstructured \<Rightarrow> error + bool"
  NestedString :: "Value \<Rightarrow> string list \<Rightarrow> error + string"
  UnmarshalField_string :: "Unstructured \<Rightarrow> string list \<Rightarrow> error + string"
  UnmarshalField_addresses ::
    "Unstructured \<Rightarrow> MachineAddress list \<Rightarrow> string list \<Rightarrow> error option \<times> MachineAddress list"
  fmt_q :: "string \<Rightarrow> string"
  RequeueAfterError_Error :: "Duration \<Rightarrow> string"
  FieldNotFound_Error :: string

text \<open>
  Modelled from the spec: \<^verbatim>\<open>utilconversion.ConvertReferenceAPIContract\<close>, whose code
  is in package util/conversion. It normalizes the reference's version against the
  supported-contract rule and fails when the version is unsupported: on success the
  reference the pointer designates carries the selected version, its other fields as
  they were; on failure the reference is as it was.
\<close>

definition ConvertReferenceAPIContract :: "env \<Rightarrow> ObjectReference \<Rightarrow> error + ObjectReference" where
  "ConvertReferenceAPIContract env ref =
     (case normalize env ref of
        Inl err \<Rightarrow> Inl err
      | Inr v \<Rightarrow> Inr (ref\<lparr>ref_APIVersion := v\<rparr>))"

text \<open>
  \<^verbatim>\<open>err.Error()\<close>: a wrapper prints its message, a colon and its cause; a panic
  prints the run-time's message.
\<close>

fun Error :: "env \<Rightarrow> error \<Rightarrow> string" where
  "Error env (RequeueAfterError d) = RequeueAfterError_Error env d"
| "Error env ErrUnstructuredFieldNotFound = FieldNotFound_Error env"
| "Error env (StatusNotFound msg) = msg"
| "Error env (Errorf msg) = msg"
| "Error env (Wrapf e msg) = msg @ '': '' @ Error env e"
| "Error env NilPointerPanic = ''runtime error: invalid memory address or nil pointer dereference''"

text \<open>The calls into collaborators, as a function records them.\<close>

datatype Call =
    Called_ConvertReferenceAPIContract ObjectReference
  | Called_Get ObjectReference string
  | Called_IsPaused Unstructured
  | Called_NewHelper Unstructured
  | Called_SetControllerReference Unstructured
  | Called_Patch Unstructured
  | Called_Watch Unstructured
  | Called_FailuresFrom Unstructured
  | Called_IsReady Unstructured
  | Called_NestedString "string list"
  | Called_UnstructuredUnmarshalField "string list"

text \<open>
  \<^verbatim>\<open>external.ReconcileOutput\<close>: \<open>Result\<close> is a pointer, nil in the empty value.
\<close>

record ReconcileOutput =
  Result :: "Unstructured option"
  Paused :: bool

text \<open>
  The parameter \<^verbatim>\<open>ref\<close> of reconcileExternal is a pointer into the Machine: the callers
  pass \<^verbatim>\<open>m.Spec.Bootstrap.ConfigRef\<close> and \<^verbatim>\<open>&m.Spec.InfrastructureRef\<close>. The embedding
  passes the place with the reference, and a write through the pointer is a write to
  that place of the Machine.
\<close>

datatype RefPtr = Bootstrap_ConfigRef | Spec_InfrastructureRef

fun store_ref :: "RefPtr \<Rightarrow> ObjectReference \<Rightarrow> Machine \<Rightarrow> Machine" where
  "store_ref Bootstrap_ConfigRef r m =
     m\<lparr>Spec := (Spec m)\<lparr>Bootstrap := (Bootstrap (Spec m))\<lparr>ConfigRef := Some r\<rparr>\<rparr>\<rparr>"
| "store_ref Spec_InfrastructureRef r m =
     m\<lparr>Spec := (Spec m)\<lparr>InfrastructureRef := r\<rparr>\<rparr>"

subsection \<open>reconcileExternal\<close>

text \<open>The messages the function formats.\<close>

definition could_not_find_msg :: "env \<Rightarrow> ObjectReference \<Rightarrow> Machine \<Rightarrow> string" where
  "could_not_find_msg env ref m =
     ''could not find '' @ GroupVersionKind_String (ref_GroupVersionKind ref) @ '' '' @
     fmt_q env (ref_Name ref) @ '' for Machine '' @ fmt_q env (Name m) @
     '' in namespace '' @ fmt_q env (Namespace m) @ '', requeuing''"

definition failure_detected_msg :: "env \<Rightarrow> Unstructured \<Rightarrow> string \<Rightarrow> string" where
  "failure_detected_msg env obj failureMessage =
     ''Failure detected from referenced resource '' @
     GroupVersionKind_String (obj_GroupVersionKind obj) @ '' with name '' @
     fmt_q env (obj_Name obj) @ '': '' @ failureMessage"

text \<open>
  The result is the pair \<^verbatim>\<open>(external.ReconcileOutput, error)\<close> as a sum, the Machine
  after the call and the calls made.
\<close>

definition reconcileExternal ::
  "env \<Rightarrow> Cluster \<Rightarrow> Machine \<Rightarrow> RefPtr \<Rightarrow> ObjectReference
     \<Rightarrow> (error + ReconcileOutput) \<times> Machine \<times> Call list" where
  "reconcileExternal env cluster m p ref0 =
     (let tr = [Called_ConvertReferenceAPIContract ref0] in
      case ConvertReferenceAPIContract env ref0 of
        Inl err \<Rightarrow> (Inl err, m, tr)
      | Inr ref \<Rightarrow>
         (let m = store_ref p ref m;
              tr = tr @ [Called_Get ref (Namespace m)] in
          case external_Get env ref (Namespace m) of
            Inl err \<Rightarrow>
              (if IsNotFound (Cause err)
               then (Inl (Wrapf (RequeueAfterError externalReadyWait) (could_not_find_msg env ref m)),
                     m, tr)
               else (Inl err, m, tr))
          | Inr obj \<Rightarrow>
             (let tr = tr @ [Called_IsPaused obj] in
              if annotations_IsPaused env cluster obj
              then (Inr \<lparr>Result = None, Paused = True\<rparr>, m, tr)
              else
               (let tr = tr @ [Called_NewHelper obj] in
                case patch_NewHelper env obj of
                  Some err \<Rightarrow> (Inl err, m, tr)
                | None \<Rightarrow>
                   (let helper = obj;
                        tr = tr @ [Called_SetControllerReference obj] in
                    case SetControllerReference env m obj of
                      Inl err \<Rightarrow> (Inl err, m, tr)
                    | Inr obj \<Rightarrow>
                       (let labels = (case obj_Labels obj of None \<Rightarrow> Map.empty | Some l \<Rightarrow> l);
                            labels = labels(ClusterLabelName \<mapsto> ClusterName (Spec m));
                            obj = obj\<lparr>obj_Labels := Some labels\<rparr>;
                            tr = tr @ [Called_Patch obj] in
                        case patchHelper_Patch env helper obj of
                          Inl err \<Rightarrow> (Inl err, m, tr)
                        | Inr obj \<Rightarrow>
                           (let tr = tr @ [Called_Watch obj] in
                            case externalTracker_Watch env obj of
                              Some err \<Rightarrow> (Inl err, m, tr)
                            | None \<Rightarrow>
                               (let tr = tr @ [Called_FailuresFrom obj] in
                                case external_FailuresFrom env obj of
                                  Inl err \<Rightarrow> (Inl err, m, tr)
                                | Inr (failureReason, failureMessage) \<Rightarrow>
                                   (let m = (if failureReason \<noteq> []
                                             then m\<lparr>Status := (Status m)\<lparr>FailureReason := Some failureReason\<rparr>\<rparr>
                                             else m);
                                        m = (if failureMessage \<noteq> []
                                             then m\<lparr>Status := (Status m)\<lparr>FailureMessage :=
                                                    Some (failure_detected_msg env obj failureMessage)\<rparr>\<rparr>
                                             else m)
                                    in (Inr \<lparr>Result = Some obj, Paused = False\<rparr>, m, tr))))))))))"

subsection \<open>reconcileBootstrap\<close>

definition bootstrap_not_ready_msg :: "env \<Rightarrow> Machine \<Rightarrow> string" where
  "bootstrap_not_ready_msg env m =
     ''Bootstrap provider for Machine '' @ fmt_q env (Name m) @ '' in namespace '' @
     fmt_q env (Namespace m) @ '' is not ready, requeuing''"

definition dataSecretName_failed_msg :: "env \<Rightarrow> Machine \<Rightarrow> string" where
  "dataSecretName_failed_msg env m =
     ''failed to retrieve dataSecretName from bootstrap provider for Machine '' @
     fmt_q env (Name m) @ '' in namespace '' @ fmt_q env (Namespace m)"

definition dataSecretName_empty_msg :: "env \<Rightarrow> Machine \<Rightarrow> string" where
  "dataSecretName_empty_msg env m =
     ''retrieved empty dataSecretName from bootstrap provider for Machine '' @
     fmt_q env (Name m) @ '' in namespace '' @ fmt_q env (Namespace m)"

text \<open>The result is the returned error (\<open>None\<close> is nil), the Machine and the calls.\<close>

definition reconcileBootstrap ::
  "env \<Rightarrow> Cluster \<Rightarrow> Machine \<Rightarrow> error option \<times> Machine \<times> Call list" where
  "reconcileBootstrap env cluster m =
     (case ConfigRef (Bootstrap (Spec m)) of
        None \<Rightarrow> (None, m, [])
      | Some ref \<Rightarrow>
         (case reconcileExternal env cluster m Bootstrap_ConfigRef ref of
            (Inl err, m, tr) \<Rightarrow> (Some err, m, tr)
          | (Inr externalResult, m, tr) \<Rightarrow>
             if Paused externalResult then (None, m, tr)
             else if DataSecretName (Bootstrap (Spec m)) \<noteq> None
             then (None, m\<lparr>Status := (Status m)\<lparr>BootstrapReady := True\<rparr>\<rparr>, tr)
             else
              (case Result externalResult of
                 None \<Rightarrow> (Some NilPointerPanic, m, tr)
               | Some bootstrapConfig \<Rightarrow>
                  if \<not> Time_IsZero (obj_DeletionTimestamp bootstrapConfig) then (None, m, tr)
                  else
                   (let tr = tr @ [Called_IsReady bootstrapConfig] in
                    case external_IsReady env bootstrapConfig of
                      Inl err \<Rightarrow> (Some err, m, tr)
                    | Inr ready \<Rightarrow>
                       if \<not> ready
                       then (Some (Wrapf (RequeueAfterError externalReadyWait)
                                     (bootstrap_not_ready_msg env m)), m, tr)
                       else
                        (let tr = tr @ [Called_NestedString [''status'', ''dataSecretName'']] in
                         case NestedString env (Object bootstrapConfig) [''status'', ''dataSecretName''] of
                           Inl err \<Rightarrow> (Some (Wrapf err (dataSecretName_failed_msg env m)), m, tr)
                         | Inr secretName \<Rightarrow>
                            if secretName = []
                            then (Some (Errorf (dataSecretName_empty_msg env m)), m, tr)
                            else
                             (None,
                              m\<lparr>Spec := (Spec m)\<lparr>Bootstrap := (Bootstrap (Spec m))
                                     \<lparr>Data := None, DataSecretName := Some secretName\<rparr>\<rparr>,
                                Status := (Status m)\<lparr>BootstrapReady := True\<rparr>\<rparr>,
                              tr))))))"

subsection \<open>reconcileInfrastructure\<close>

definition infra_deleted_msg :: "env \<Rightarrow> Machine \<Rightarrow> string" where
  "infra_deleted_msg env m =
     ''Machine infrastructure resource '' @
     GroupVersionKind_String (ref_GroupVersionKind (InfrastructureRef (Spec m))) @
     '' with name '' @ fmt_q env (ref_Name (InfrastructureRef (Spec m))) @
     '' has been deleted after being ready''"

definition infra_not_ready_msg :: "env \<Rightarrow> Machine \<Rightarrow> string" where
  "infra_not_ready_msg env m =
     ''Infrastructure provider for Machine '' @ fmt_q env (Name m) @ '' in namespace '' @
     fmt_q env (Namespace m) @ '' is not ready, requeuing''"

definition providerID_failed_msg :: "env \<Rightarrow> Machine \<Rightarrow> string" where
  "providerID_failed_msg env m =
     ''failed to retrieve Spec.ProviderID from infrastructure provider for Machine '' @
     fmt_q env (Name m) @ '' in namespace '' @ fmt_q env (Namespace m)"

definition providerID_empty_msg :: "env \<Rightarrow> Machine \<Rightarrow> string" where
  "providerID_empty_msg env m =
     ''retrieved empty Spec.ProviderID from infrastructure provider for Machine '' @
     fmt_q env (Name m) @ '' in namespace '' @ fmt_q env (Namespace m)"

definition addresses_failed_msg :: "env \<Rightarrow> Machine \<Rightarrow> string" where
  "addresses_failed_msg env m =
     ''failed to retrieve addresses from infrastructure provider for Machine '' @
     fmt_q env (Name m) @ '' in namespace '' @ fmt_q env (Namespace m)"

definition failureDomain_failed_msg :: "env \<Rightarrow> Machine \<Rightarrow> string" where
  "failureDomain_failed_msg env m =
     ''failed to failure domain from infrastructure provider for Machine '' @
     fmt_q env (Name m) @ '' in namespace '' @ fmt_q env (Namespace m)"

text \<open>
  The read of \<^verbatim>\<open>status.addresses\<close> writes through \<^verbatim>\<open>&m.Status.Addresses\<close>, so the
  slice after the call is stored before the error is looked at. The two tests of the
  error against the sentinel are tests of equality with \<open>ErrUnstructuredFieldNotFound\<close>.
\<close>

definition reconcileInfrastructure ::
  "env \<Rightarrow> Cluster \<Rightarrow> Machine \<Rightarrow> error option \<times> Machine \<times> Call list" where
  "reconcileInfrastructure env cluster m =
     (case reconcileExternal env cluster m Spec_InfrastructureRef (InfrastructureRef (Spec m)) of
        (Inl err, m, tr) \<Rightarrow>
          (if InfrastructureReady (Status m) \<and> strings_Contains (Error env err) ''could not find''
           then (Some err,
                 m\<lparr>Status := (Status m)
                     \<lparr>FailureReason := Some InvalidConfigurationMachineError,
                      FailureMessage := Some (infra_deleted_msg env m)\<rparr>\<rparr>,
                 tr)
           else (Some err, m, tr))
      | (Inr infraReconcileResult, m, tr) \<Rightarrow>
         if Paused infraReconcileResult then (None, m, tr)
         else
          (case Result infraReconcileResult of
             None \<Rightarrow> (Some NilPointerPanic, m, tr)
           | Some infraConfig \<Rightarrow>
              if \<not> Time_IsZero (obj_DeletionTimestamp infraConfig) then (None, m, tr)
              else
               (let tr = tr @ [Called_IsReady infraConfig] in
                case external_IsReady env infraConfig of
                  Inl err \<Rightarrow> (Some err, m, tr)
                | Inr ready \<Rightarrow>
                   (let m = m\<lparr>Status := (Status m)\<lparr>InfrastructureReady := ready\<rparr>\<rparr> in
                    if \<not> ready
                    then (Some (Wrapf (RequeueAfterError externalReadyWait)
                                  (infra_not_ready_msg env m)), m, tr)
                    else
                     (let tr = tr @ [Called_UnstructuredUnmarshalField [''spec'', ''providerID'']] in
                      case UnmarshalField_string env infraConfig [''spec'', ''providerID''] of
                        Inl err \<Rightarrow> (Some (Wrapf err (providerID_failed_msg env m)), m, tr)
                      | Inr providerID \<Rightarrow>
                         if providerID = []
                         then (Some (Errorf (providerID_empty_msg env m)), m, tr)
                         else
                          (let tr = tr @ [Called_UnstructuredUnmarshalField [''status'', ''addresses'']];
                               (err, addresses) =
                                  UnmarshalField_addresses env infraConfig (Addresses (Status m))
                                    [''status'', ''addresses''];
                               m = m\<lparr>Status := (Status m)\<lparr>Addresses := addresses\<rparr>\<rparr> in
                           case (if err = Some ErrUnstructuredFieldNotFound then None else err) of
                             Some err \<Rightarrow> (Some (Wrapf err (addresses_failed_msg env m)), m, tr)
                           | None \<Rightarrow>
                              (let tr = tr @ [Called_UnstructuredUnmarshalField [''spec'', ''failureDomain'']] in
                               case UnmarshalField_string env infraConfig [''spec'', ''failureDomain''] of
                                 Inl err \<Rightarrow>
                                   if err = ErrUnstructuredFieldNotFound
                                   then (None, m\<lparr>Spec := (Spec m)\<lparr>ProviderID := Some providerID\<rparr>\<rparr>, tr)
                                   else (Some (Wrapf err (failureDomain_failed_msg env m)), m, tr)
                               | Inr failureDomain \<Rightarrow>
                                  (None,
                                   m\<lparr>Spec := (Spec m)\<lparr>FailureDomain := Some failureDomain,
                                                      ProviderID := Some providerID\<rparr>\<rparr>,
                                   tr))))))))"

subsection \<open>Example inputs\<close>

text \<open>
  Concrete inputs at which the theorems below are instantiated: a Machine in namespace
  \<open>default\<close> whose bootstrap and infrastructure references name the same object, and
  collaborators that answer every call successfully. \<open>example_env got ready providerID\<close>
  answers the fetch with \<open>got\<close>, the readiness check with \<open>ready\<close> and the read of
  \<^verbatim>\<open>spec.providerID\<close> with \<open>providerID\<close>; an object is paused when its cluster is;
  \<^verbatim>\<open>%q\<close> puts a string between double quotes.
\<close>

definition example_ref :: ObjectReference where
  "example_ref =
     \<lparr>ref_Kind = ''InfraMachine'', ref_Namespace = ''default'', ref_Name = ''infra-1'',
      ref_APIVersion = ''infrastructure.cluster.x-k8s.io/v1alpha3''\<rparr>"

definition example_obj :: Unstructured where
  "example_obj =
     \<lparr>obj_APIVersion = ''infrastructure.cluster.x-k8s.io/v1alpha3'', obj_Kind = ''InfraMachine'',
      obj_Name = ''infra-1'', obj_Labels = None, obj_DeletionTimestamp = None, Object = VMap []\<rparr>"

definition example_cluster :: Cluster where
  "example_cluster = \<lparr>cluster_Name = ''c1'', cluster_Paused = False\<rparr>"

definition example_machine :: Machine where
  "example_machine =
     \<lparr>Name = ''m1'', Namespace = ''default'', DeletionTimestamp = None,
      Spec = \<lparr>ClusterName = ''c1'',
              Bootstrap = \<lparr>ConfigRef = Some example_ref, Data = None, DataSecretName = None\<rparr>,
              InfrastructureRef = example_ref, ProviderID = None, FailureDomain = None\<rparr>,
      Status = \<lparr>NodeRef = None, LastUpdated = None, FailureReason = None, FailureMessage = None,
                Addresses = [], Phase = [], BootstrapReady = False, InfrastructureReady = False\<rparr>\<rparr>"

definition example_env :: "(error + Unstructured) \<Rightarrow> (error + bool) \<Rightarrow> (error + string) \<Rightarrow> env" where
  "example_env got ready providerID =
     \<lparr>normalize = (\<lambda>r. Inr (ref_APIVersion r)),
      external_Get = (\<lambda>r ns. got),
      annotations_IsPaused = (\<lambda>c obj. cluster_Paused c),
      patch_NewHelper = (\<lambda>obj. None),
      SetControllerReference = (\<lambda>m obj. Inr obj),
      patchHelper_Patch = (\<lambda>helper obj. Inr example_obj),
      externalTracker_Watch = (\<lambda>obj. None),
      external_FailuresFrom = (\<lambda>obj. Inr ([], [])),
      external_IsReady = (\<lambda>obj. ready),
      NestedString = (\<lambda>v path. Inr ''secret-1''),
      UnmarshalField_string =
        (\<lambda>obj path. if path = [''spec'', ''providerID''] then providerID
                     else Inl ErrUnstructuredFieldNotFound),
      UnmarshalField_addresses = (\<lambda>obj addresses path. (Some ErrUnstructuredFieldNotFound, addresses)),
      fmt_q = (\<lambda>s. [CHR 0x22] @ s @ [CHR 0x22]),
      RequeueAfterError_Error = (\<lambda>d. ''requeue in: 30s''),
      FieldNotFound_Error = ''field not found''\<rparr>"

definition example_not_found :: error where
  "example_not_found = Wrapf (StatusNotFound ''not found'') ''failed to retrieve external object''"

definition example_ready_machine :: Machine where
  "example_ready_machine =
     example_machine\<lparr>Status := (Status example_machine)\<lparr>InfrastructureReady := True\<rparr>\<rparr>"

definition example_secret_machine :: Machine where
  "example_secret_machine =
     example_machine\<lparr>Spec := (Spec example_machine)
       \<lparr>Bootstrap := (Bootstrap (Spec example_machine))\<lparr>DataSecretName := Some ''secret-0''\<rparr>\<rparr>\<rparr>"

definition example_failed_machine :: Machine where
  "example_failed_machine =
     example_machine\<lparr>Status := (Status example_machine)
       \<lparr>FailureReason := Some ''CreateError'', FailureMessage := Some ''boom''\<rparr>\<rparr>"

definition example_calls :: "Call list" where
  "example_calls =
     [Called_ConvertReferenceAPIContract example_ref, Called_Get example_ref ''default'',
      Called_IsPaused example_obj, Called_NewHelper example_obj,
      Called_SetControllerReference example_obj,
      Called_Patch (example_obj\<lparr>obj_Labels := Some [ClusterLabelName \<mapsto> ''c1'']\<rparr>),
      Called_Watch example_obj, Called_FailuresFrom example_obj]"

definition example_failed_node_machine :: Machine where
  "example_failed_node_machine =
     example_machine\<lparr>Status := (Status example_machine)
       \<lparr>NodeRef := Some example_ref, InfrastructureReady := True,
        FailureReason := Some ''InvalidConfiguration''\<rparr>\<rparr>"

definition example_running_machine :: Machine where
  "example_running_machine =
     example_machine\<lparr>Status := (Status example_machine)
       \<lparr>NodeRef := Some example_ref, InfrastructureReady := True, BootstrapReady := True\<rparr>\<rparr>"

definition example_failed_deleting_machine :: Machine where
  "example_failed_deleting_machine =
     example_machine\<lparr>DeletionTimestamp := Some 3,
       Status := (Status example_machine)
       \<lparr>NodeRef := Some example_ref, InfrastructureReady := True,
        FailureMessage := Some ''gone''\<rparr>\<rparr>"

section \<open>Lemmas\<close>

subsection \<open>Substrings and messages\<close>

text \<open>
  \<open>strings_Contains\<close> is the substring relation.
\<close>

lemma strings_Contains_iff: "strings_Contains s sub \<longleftrightarrow> (\<exists>p q. s = p @ sub @ q)"
proof (induction s)
  case Nil
  then show ?case by auto
next
  case (Cons c cs)
  show ?case
  proof
    assume "strings_Contains (c # cs) sub"
    then consider "prefix sub (c # cs)" | "strings_Contains cs sub" by auto
    then show "\<exists>p q. c # cs = p @ sub @ q"
    proof cases
      case 1
      then obtain q where "c # cs = sub @ q" by (auto simp: prefix_def)
      then have "c # cs = [] @ sub @ q" by simp
      then show ?thesis by blast
    next
      case 2
      with Cons.IH obtain p q where "cs = p @ sub @ q" by blast
      then have "c # cs = (c # p) @ sub @ q" by simp
      then show ?thesis by blast
    qed
  next
    assume "\<exists>p q. c # cs = p @ sub @ q"
    then obtain p q where pq: "c # cs = p @ sub @ q" by blast
    show "strings_Contains (c # cs) sub"
    proof (cases p)
      case Nil
      with pq have "prefix sub (c # cs)" by (simp add: prefix_def)
      then show ?thesis by simp
    next
      case (Cons a p')
      with pq have "cs = p' @ sub @ q" by simp
      with Cons.IH have "strings_Contains cs sub" by blast
      then show ?thesis by simp
    qed
  qed
qed

lemma strings_Contains_infix: "strings_Contains (p @ sub @ q) sub"
  unfolding strings_Contains_iff by blast

lemma strings_Contains_prefix: "strings_Contains (sub @ q) sub"
  using strings_Contains_infix [of "[]" sub q] by simp

lemma Kind_ref_GroupVersionKind: "Kind (ref_GroupVersionKind r) = ref_Kind r"
  by (simp add: ref_GroupVersionKind_def split: option.splits)

lemma could_not_find_msg_store_ref:
  "could_not_find_msg env ref (store_ref p r m) = could_not_find_msg env ref m"
  by (cases p) (simp_all add: could_not_find_msg_def)

lemma could_not_find_msg_prefix:
  "strings_Contains (could_not_find_msg env ref m @ rest) ''could not find''"
proof -
  have "could_not_find_msg env ref m @ rest =
        ''could not find'' @ ('' '' @ GroupVersionKind_String (ref_GroupVersionKind ref) @ '' '' @
     fmt_q env (ref_Name ref) @ '' for Machine '' @ fmt_q env (Name m) @
     '' in namespace '' @ fmt_q env (Namespace m) @ '', requeuing'' @ rest)"
    by (simp add: could_not_find_msg_def)
  then show ?thesis
    by (simp only: strings_Contains_prefix)
qed

lemma could_not_find_msg_Kind:
  "strings_Contains (could_not_find_msg env ref m) (ref_Kind ref)"
proof -
  have "could_not_find_msg env ref m =
        (''could not find '' @ Group (ref_GroupVersionKind ref) @ ''/'' @
           Version (ref_GroupVersionKind ref) @ '', Kind='') @ ref_Kind ref @
        ('' '' @ fmt_q env (ref_Name ref) @ '' for Machine '' @ fmt_q env (Name m) @
         '' in namespace '' @ fmt_q env (Namespace m) @ '', requeuing'')"
    by (simp add: could_not_find_msg_def GroupVersionKind_String_def Kind_ref_GroupVersionKind)
  then show ?thesis
    by (simp only: strings_Contains_infix)
qed

lemma could_not_find_msg_Name:
  "strings_Contains (could_not_find_msg env ref m) (fmt_q env (ref_Name ref))"
proof -
  have "could_not_find_msg env ref m =
        (''could not find '' @ GroupVersionKind_String (ref_GroupVersionKind ref) @ '' '') @
        fmt_q env (ref_Name ref) @
        ('' for Machine '' @ fmt_q env (Name m) @
         '' in namespace '' @ fmt_q env (Namespace m) @ '', requeuing'')"
    by (simp add: could_not_find_msg_def)
  then show ?thesis
    by (simp only: strings_Contains_infix)
qed

lemma could_not_find_msg_Namespace:
  "strings_Contains (could_not_find_msg env ref m) (fmt_q env (Namespace m))"
proof -
  have "could_not_find_msg env ref m =
        (''could not find '' @ GroupVersionKind_String (ref_GroupVersionKind ref) @ '' '' @
        fmt_q env (ref_Name ref) @ '' for Machine '' @ fmt_q env (Name m) @
         '' in namespace '') @ fmt_q env (Namespace m) @ '', requeuing''"
    by (simp add: could_not_find_msg_def)
  then show ?thesis
    by (simp only: strings_Contains_infix)
qed

subsection \<open>reconcileExternal\<close>

text \<open>
  A write through the reference pointer changes one reference of the spec and nothing
  else.
\<close>

lemma store_ref_frame:
  "Name (store_ref p r m) = Name m" "Namespace (store_ref p r m) = Namespace m"
  "DeletionTimestamp (store_ref p r m) = DeletionTimestamp m"
  "Status (store_ref p r m) = Status m"
  "ProviderID (Spec (store_ref p r m)) = ProviderID (Spec m)"
  "FailureDomain (Spec (store_ref p r m)) = FailureDomain (Spec m)"
  "ClusterName (Spec (store_ref p r m)) = ClusterName (Spec m)"
  "DataSecretName (Bootstrap (Spec (store_ref p r m))) = DataSecretName (Bootstrap (Spec m))"
  "Data (Bootstrap (Spec (store_ref p r m))) = Data (Bootstrap (Spec m))"
  by (cases p; simp)+

text \<open>
  reconcileExternal leaves the Machine's identity, its spec outside the reference and
  its status outside the two failure fields as they were, and never clears a failure
  field.
\<close>

lemma reconcileExternal_frame:
  assumes "reconcileExternal env cluster m p ref = (r, m', tr)"
  shows "Name m' = Name m" "Namespace m' = Namespace m"
    "DeletionTimestamp m' = DeletionTimestamp m"
    "ProviderID (Spec m') = ProviderID (Spec m)"
    "DataSecretName (Bootstrap (Spec m')) = DataSecretName (Bootstrap (Spec m))"
    "InfrastructureReady (Status m') = InfrastructureReady (Status m)"
    "BootstrapReady (Status m') = BootstrapReady (Status m)"
    "FailureReason (Status m) \<noteq> None \<Longrightarrow> FailureReason (Status m') \<noteq> None"
    "FailureMessage (Status m) \<noteq> None \<Longrightarrow> FailureMessage (Status m') \<noteq> None"
  using assms
  by (auto simp: reconcileExternal_def Let_def store_ref_frame
      split: sum.splits option.splits if_splits prod.splits)

text \<open>
  It never asks for readiness and never reads a provider field.
\<close>

lemma reconcileExternal_calls:
  assumes "reconcileExternal env cluster m p ref = (r, m', tr)"
  shows "Called_IsReady obj \<notin> set tr" "Called_NestedString path \<notin> set tr"
    "Called_UnstructuredUnmarshalField path \<notin> set tr"
  using assms
  by (auto simp: reconcileExternal_def Let_def
      split: sum.splits option.splits if_splits prod.splits)

text \<open>
  A successful result is paused without an object, or carries the object: the callers
  never dereference a nil result.
\<close>

lemma reconcileExternal_Result:
  assumes "reconcileExternal env cluster m p ref = (Inr out, m', tr)"
  shows "Paused out \<and> Result out = None \<or> \<not> Paused out \<and> Result out \<noteq> None"
  using assms
  by (auto simp: reconcileExternal_def Let_def
      split: sum.splits option.splits if_splits prod.splits)

text \<open>
  The two early returns the claims are about: the fetch reports not-found, and the
  fetched object is paused.
\<close>

lemma reconcileExternal_not_found:
  assumes "normalize env ref = Inr v"
    and "external_Get env (ref\<lparr>ref_APIVersion := v\<rparr>) (Namespace m) = Inl err"
    and "IsNotFound (Cause err)"
  shows "reconcileExternal env cluster m p ref =
           (Inl (Wrapf (RequeueAfterError externalReadyWait)
                   (could_not_find_msg env (ref\<lparr>ref_APIVersion := v\<rparr>) m)),
            store_ref p (ref\<lparr>ref_APIVersion := v\<rparr>) m,
            [Called_ConvertReferenceAPIContract ref,
             Called_Get (ref\<lparr>ref_APIVersion := v\<rparr>) (Namespace m)])"
  using assms
  by (simp add: reconcileExternal_def ConvertReferenceAPIContract_def Let_def store_ref_frame
      could_not_find_msg_store_ref)

lemma reconcileExternal_paused:
  assumes "normalize env ref = Inr v"
    and "external_Get env (ref\<lparr>ref_APIVersion := v\<rparr>) (Namespace m) = Inr obj"
    and "annotations_IsPaused env cluster obj"
  shows "reconcileExternal env cluster m p ref =
           (Inr \<lparr>Result = None, Paused = True\<rparr>,
            store_ref p (ref\<lparr>ref_APIVersion := v\<rparr>) m,
            [Called_ConvertReferenceAPIContract ref,
             Called_Get (ref\<lparr>ref_APIVersion := v\<rparr>) (Namespace m),
             Called_IsPaused obj])"
  using assms
  by (simp add: reconcileExternal_def ConvertReferenceAPIContract_def Let_def store_ref_frame)

subsection \<open>reconcilePhase\<close>

lemma phase_consts_nonempty:
  "MachinePhasePending \<noteq> []" "MachinePhaseProvisioning \<noteq> []" "MachinePhaseProvisioned \<noteq> []"
  "MachinePhaseRunning \<noteq> []" "MachinePhaseFailed \<noteq> []" "MachinePhaseDeleting \<noteq> []"
  by (simp_all add: MachinePhasePending_def MachinePhaseProvisioning_def
      MachinePhaseProvisioned_def MachinePhaseRunning_def MachinePhaseFailed_def MachinePhaseDeleting_def)

text \<open>
  reconcilePhase changes the phase and the timestamp only: the phase becomes
  \<open>derive m\<close>, and the timestamp becomes \<open>now\<close> when that differs from the phase on
  entry.
\<close>

lemma reconcilePhase_closed:
  "reconcilePhase now m =
     m\<lparr>Status := (Status m)
         \<lparr>LastUpdated := (if derive m \<noteq> Phase (Status m) then Some now else LastUpdated (Status m)),
          Phase := derive m\<rparr>\<rparr>"
  by (cases "Time_IsZero (DeletionTimestamp m)"; cases "FailureReason (Status m) = None";
      cases "FailureMessage (Status m) = None"; cases "NodeRef (Status m) = None";
      cases "InfrastructureReady (Status m)"; cases "BootstrapReady (Status m)";
      cases "Phase (Status m) = []";
      simp add: reconcilePhase_def derive_def SetTypedPhase_def Let_def cong: let_weak_cong)

lemma Phase_reconcilePhase: "Phase (Status (reconcilePhase now m)) = derive m"
  by (simp add: reconcilePhase_closed)

lemma derive_nonempty: "derive m \<noteq> []"
  by (simp add: derive_def phase_consts_nonempty)

lemma derive_update:
  "derive (m\<lparr>Status := (Status m)\<lparr>LastUpdated := l, Phase := p\<rparr>\<rparr>) =
     (if \<not> Time_IsZero (DeletionTimestamp m) then MachinePhaseDeleting
      else if FailureReason (Status m) \<noteq> None \<or> FailureMessage (Status m) \<noteq> None then MachinePhaseFailed
      else if NodeRef (Status m) \<noteq> None \<and> InfrastructureReady (Status m) then MachinePhaseRunning
      else if NodeRef (Status m) \<noteq> None then MachinePhaseProvisioned
      else if BootstrapReady (Status m) \<and> \<not> InfrastructureReady (Status m) then MachinePhaseProvisioning
      else if p = [] then MachinePhasePending
      else p)"
  by (simp add: derive_def)

lemma derive_reconcilePhase: "derive (reconcilePhase now m) = derive m"
proof -
  have "derive (reconcilePhase now m) =
     (if \<not> Time_IsZero (DeletionTimestamp m) then MachinePhaseDeleting
      else if FailureReason (Status m) \<noteq> None \<or> FailureMessage (Status m) \<noteq> None then MachinePhaseFailed
      else if NodeRef (Status m) \<noteq> None \<and> InfrastructureReady (Status m) then MachinePhaseRunning
      else if NodeRef (Status m) \<noteq> None then MachinePhaseProvisioned
      else if BootstrapReady (Status m) \<and> \<not> InfrastructureReady (Status m) then MachinePhaseProvisioning
      else derive m)"
    by (simp only: reconcilePhase_closed derive_update derive_nonempty if_False)
  also have "\<dots> = derive m"
    by (simp add: derive_def)
  finally show ?thesis .
qed

subsection \<open>The example collaborators\<close>

lemma obj_Labels_example_obj: "obj_Labels example_obj = None"
  by (simp add: example_obj_def)

text \<open>
  With the example collaborators and a fetch that succeeds, reconcileExternal runs to
  its end.
\<close>

lemma example_reconcileExternal:
  assumes "Namespace m = ''default''" and "ClusterName (Spec m) = ''c1''"
  shows "reconcileExternal (example_env (Inr example_obj) ready providerID) example_cluster m p example_ref =
     (Inr \<lparr>Result = Some example_obj, Paused = False\<rparr>, store_ref p example_ref m, example_calls)"
  using assms
  by (simp add: reconcileExternal_def ConvertReferenceAPIContract_def example_env_def
      example_cluster_def example_calls_def Let_def store_ref_frame obj_Labels_example_obj)

subsection \<open>Failure fields under the two callers\<close>

lemma reconcileBootstrap_sticky:
  "FailureReason (Status m) \<noteq> None \<Longrightarrow>
     FailureReason (Status (fst (snd (reconcileBootstrap env cluster m)))) \<noteq> None"
  "FailureMessage (Status m) \<noteq> None \<Longrightarrow>
     FailureMessage (Status (fst (snd (reconcileBootstrap env cluster m)))) \<noteq> None"
  by (auto simp: reconcileBootstrap_def Let_def
      split: sum.splits option.splits if_splits prod.splits
      dest: reconcileExternal_frame(8,9))

lemma reconcileInfrastructure_sticky:
  "FailureReason (Status m) \<noteq> None \<Longrightarrow>
     FailureReason (Status (fst (snd (reconcileInfrastructure env cluster m)))) \<noteq> None"
  "FailureMessage (Status m) \<noteq> None \<Longrightarrow>
     FailureMessage (Status (fst (snd (reconcileInfrastructure env cluster m)))) \<noteq> None"
  by (auto simp: reconcileInfrastructure_def Let_def
      split: sum.splits option.splits if_splits prod.splits
      dest: reconcileExternal_frame(8,9))

section \<open>The claims\<close>

subsection \<open>C1: a ready Machine whose infrastructure object is gone\<close>

text \<open>
  Claim C1 says that, for a Machine with \<open>InfrastructureReady\<close> whose infrastructure
  reference resolves to not-found, reconcileInfrastructure sets both failure fields and
  returns the propagated error, and that this error is not a RetryAfter. The last part
  fails: the error propagated is the one reconcileExternal built for not-found, a
  \<open>RequeueAfterError\<close> of 30 seconds under the message starting with \<open>could not find\<close>,
  and that message is what the test \<^verbatim>\<open>strings.Contains(err.Error(), "could not find")\<close>
  of reconcileInfrastructure looks for. At the ready example Machine with a fetch that
  reports not-found, the returned error has a \<open>RequeueAfterError\<close> as its cause.
\<close>

theorem not_found_after_ready_is_RetryAfter_counterexample:
  "InfrastructureReady (Status example_ready_machine)
   \<and> external_Get (example_env (Inl example_not_found) (Inr True) (Inr ''aws:///i-123''))
        (InfrastructureRef (Spec example_ready_machine)) (Namespace example_ready_machine) =
       Inl example_not_found
   \<and> IsNotFound (Cause example_not_found)
   \<and> fst (reconcileInfrastructure (example_env (Inl example_not_found) (Inr True) (Inr ''aws:///i-123''))
            example_cluster example_ready_machine) =
       Some (Wrapf (RequeueAfterError 30000000000)
              (could_not_find_msg (example_env (Inl example_not_found) (Inr True) (Inr ''aws:///i-123''))
                 example_ref example_ready_machine))
   \<and> HasRequeueAfterError (Wrapf (RequeueAfterError 30000000000)
              (could_not_find_msg (example_env (Inl example_not_found) (Inr True) (Inr ''aws:///i-123''))
                 example_ref example_ready_machine))
   \<and> GetRequeueAfter (Wrapf (RequeueAfterError 30000000000)
              (could_not_find_msg (example_env (Inl example_not_found) (Inr True) (Inr ''aws:///i-123''))
                 example_ref example_ready_machine)) = Some 30000000000
   \<and> FailureReason (Status (fst (snd (reconcileInfrastructure
         (example_env (Inl example_not_found) (Inr True) (Inr ''aws:///i-123''))
         example_cluster example_ready_machine)))) = Some ''InvalidConfiguration''"
proof -
  have "reconcileExternal (example_env (Inl example_not_found) (Inr True) (Inr ''aws:///i-123''))
          example_cluster example_ready_machine Spec_InfrastructureRef example_ref =
        (Inl (Wrapf (RequeueAfterError externalReadyWait)
               (could_not_find_msg (example_env (Inl example_not_found) (Inr True) (Inr ''aws:///i-123''))
                  example_ref example_ready_machine)),
         store_ref Spec_InfrastructureRef example_ref example_ready_machine,
         [Called_ConvertReferenceAPIContract example_ref,
          Called_Get example_ref (Namespace example_ready_machine)])"
    using reconcileExternal_not_found
      [of "example_env (Inl example_not_found) (Inr True) (Inr ''aws:///i-123'')" example_ref
          "''infrastructure.cluster.x-k8s.io/v1alpha3''" example_ready_machine example_not_found
          example_cluster Spec_InfrastructureRef]
    by (simp add: example_env_def example_ref_def example_not_found_def)
  moreover have "InfrastructureRef (Spec example_ready_machine) = example_ref"
    by (simp add: example_ready_machine_def example_machine_def)
  ultimately show ?thesis
    by (simp add: reconcileInfrastructure_def could_not_find_msg_prefix externalReadyWait_def
        Second_def example_env_def example_not_found_def InvalidConfigurationMachineError_def)
       (simp add: example_ready_machine_def example_machine_def)
qed

text \<open>
  C1, amended: if \<open>Status.InfrastructureReady\<close> is true and the fetch of the
  infrastructure reference reports not-found, then reconcileInfrastructure sets
  \<open>Status.FailureReason\<close> (to the invalid-configuration reason) and
  \<open>Status.FailureMessage\<close> (naming the reference) and returns, unchanged, the error
  reconcileExternal returned: the RetryAfter error (\<open>RequeueAfterError\<close>, delay
  \<open>externalReadyWait\<close>) that carries the \<open>could not find\<close> message.
\<close>

theorem reconcileInfrastructure_not_found_after_ready:
  assumes "InfrastructureReady (Status m)"
    and "normalize env (InfrastructureRef (Spec m)) = Inr v"
    and "external_Get env ((InfrastructureRef (Spec m))\<lparr>ref_APIVersion := v\<rparr>) (Namespace m) = Inl err"
    and "IsNotFound (Cause err)"
  shows "let ref = (InfrastructureRef (Spec m))\<lparr>ref_APIVersion := v\<rparr>;
             e = Wrapf (RequeueAfterError externalReadyWait) (could_not_find_msg env ref m);
             (ret, m', calls) = reconcileInfrastructure env cluster m
         in fst (reconcileExternal env cluster m Spec_InfrastructureRef (InfrastructureRef (Spec m))) = Inl e
            \<and> ret = Some e
            \<and> FailureReason (Status m') = Some InvalidConfigurationMachineError
            \<and> FailureMessage (Status m') =
                Some (infra_deleted_msg env (store_ref Spec_InfrastructureRef ref m))
            \<and> HasRequeueAfterError e
            \<and> GetRequeueAfter e = Some externalReadyWait"
  using assms(1)
  by (simp add: reconcileInfrastructure_def reconcileExternal_not_found [OF assms(2-4)] Let_def
      could_not_find_msg_prefix)

text \<open>
  The theorem at the ready example Machine and a fetch that reports not-found.
\<close>

theorem reconcileInfrastructure_not_found_after_ready_witness:
  "InfrastructureReady (Status example_ready_machine)
   \<and> external_Get (example_env (Inl example_not_found) (Inr True) (Inr ''aws:///i-123''))
        example_ref (Namespace example_ready_machine) = Inl example_not_found
   \<and> IsNotFound (Cause example_not_found)
   \<and> fst (reconcileInfrastructure (example_env (Inl example_not_found) (Inr True) (Inr ''aws:///i-123''))
            example_cluster example_ready_machine) =
       Some (Wrapf (RequeueAfterError externalReadyWait)
              (could_not_find_msg (example_env (Inl example_not_found) (Inr True) (Inr ''aws:///i-123''))
                 example_ref example_ready_machine))
   \<and> FailureReason (Status (fst (snd (reconcileInfrastructure
         (example_env (Inl example_not_found) (Inr True) (Inr ''aws:///i-123''))
         example_cluster example_ready_machine)))) = Some ''InvalidConfiguration''
   \<and> FailureMessage (Status (fst (snd (reconcileInfrastructure
         (example_env (Inl example_not_found) (Inr True) (Inr ''aws:///i-123''))
         example_cluster example_ready_machine)))) \<noteq> None"
  using reconcileInfrastructure_not_found_after_ready
    [of example_ready_machine "example_env (Inl example_not_found) (Inr True) (Inr ''aws:///i-123'')"
        "''infrastructure.cluster.x-k8s.io/v1alpha3''" example_not_found example_cluster]
  by (simp add: example_env_def example_ref_def example_not_found_def example_ready_machine_def
      example_machine_def Let_def InvalidConfigurationMachineError_def split: prod.splits)

subsection \<open>C2: not-found becomes a RetryAfter of 30 seconds\<close>

text \<open>
  C2: whenever the version contract accepts the reference and the fetch reports an error
  whose cause is not-found, reconcileExternal returns a \<open>RequeueAfterError\<close> with delay
  exactly 30 seconds, wrapped under a message that contains the kind and the quoted name
  of the reference and the quoted namespace of the fetch (the Machine's namespace, which
  is the namespace \<^verbatim>\<open>external.Get\<close> is given). The result is never another error.
\<close>

theorem reconcileExternal_not_found_RetryAfter:
  assumes "normalize env ref = Inr v"
    and "external_Get env (ref\<lparr>ref_APIVersion := v\<rparr>) (Namespace m) = Inl err"
    and "IsNotFound (Cause err)"
  shows "let msg = could_not_find_msg env (ref\<lparr>ref_APIVersion := v\<rparr>) m;
             e = Wrapf (RequeueAfterError (30 * Second)) msg
         in fst (reconcileExternal env cluster m p ref) = Inl e
            \<and> HasRequeueAfterError e
            \<and> GetRequeueAfter e = Some (30 * Second)
            \<and> strings_Contains msg (ref_Kind ref)
            \<and> strings_Contains msg (fmt_q env (ref_Name ref))
            \<and> strings_Contains msg (fmt_q env (Namespace m))"
  using could_not_find_msg_Kind [of env "ref\<lparr>ref_APIVersion := v\<rparr>" m]
    could_not_find_msg_Name [of env "ref\<lparr>ref_APIVersion := v\<rparr>" m]
    could_not_find_msg_Namespace [of env "ref\<lparr>ref_APIVersion := v\<rparr>" m]
  by (simp add: reconcileExternal_not_found [OF assms] Let_def externalReadyWait_def)

text \<open>
  The theorem at the example Machine and a fetch that reports not-found.
\<close>

theorem reconcileExternal_not_found_RetryAfter_witness:
  "normalize (example_env (Inl example_not_found) (Inr True) (Inr ''aws:///i-123'')) example_ref =
     Inr ''infrastructure.cluster.x-k8s.io/v1alpha3''
   \<and> external_Get (example_env (Inl example_not_found) (Inr True) (Inr ''aws:///i-123''))
        example_ref (Namespace example_machine) = Inl example_not_found
   \<and> IsNotFound (Cause example_not_found)
   \<and> fst (reconcileExternal (example_env (Inl example_not_found) (Inr True) (Inr ''aws:///i-123''))
          example_cluster example_machine Spec_InfrastructureRef example_ref) =
       Inl (Wrapf (RequeueAfterError 30000000000)
             (could_not_find_msg (example_env (Inl example_not_found) (Inr True) (Inr ''aws:///i-123''))
                example_ref example_machine))
   \<and> GetRequeueAfter (Wrapf (RequeueAfterError 30000000000)
             (could_not_find_msg (example_env (Inl example_not_found) (Inr True) (Inr ''aws:///i-123''))
                example_ref example_machine)) = Some 30000000000"
  using reconcileExternal_not_found_RetryAfter
    [of "example_env (Inl example_not_found) (Inr True) (Inr ''aws:///i-123'')" example_ref
        "''infrastructure.cluster.x-k8s.io/v1alpha3''" example_machine example_not_found
        example_cluster Spec_InfrastructureRef]
  by (simp add: example_env_def example_ref_def example_not_found_def Let_def Second_def)

subsection \<open>C3: reconcilePhase is idempotent\<close>

text \<open>
  C3: reconcilePhase is a function of the Machine and the clock, and applying it to its
  own result changes nothing, whatever the clock shows the second time: the phase
  derived from a status on which the phase was already derived is that phase, and the
  whole Machine is unchanged.
\<close>

theorem reconcilePhase_idempotent:
  "Phase (Status (reconcilePhase now' (reconcilePhase now m))) = Phase (Status (reconcilePhase now m))
   \<and> reconcilePhase now' (reconcilePhase now m) = reconcilePhase now m"
proof -
  have "reconcilePhase now' (reconcilePhase now m) = reconcilePhase now m"
    by (subst reconcilePhase_closed [of now' "reconcilePhase now m"])
       (simp add: derive_reconcilePhase Phase_reconcilePhase)
  then show ?thesis by simp
qed

text \<open>
  The theorem at the example Machine, whose phase is unset on entry.
\<close>

theorem reconcilePhase_idempotent_witness:
  "Phase (Status (reconcilePhase 7 (reconcilePhase 5 example_machine))) = ''Pending''
   \<and> Phase (Status (reconcilePhase 5 example_machine)) = ''Pending''
   \<and> reconcilePhase 7 (reconcilePhase 5 example_machine) = reconcilePhase 5 example_machine"
  using reconcilePhase_idempotent [of 7 5 example_machine]
  by (simp add: Phase_reconcilePhase derive_def example_machine_def Time_IsZero_def MachinePhasePending_def)

subsection \<open>C4: the timestamp follows the phase\<close>

text \<open>
  C4: after reconcilePhase, \<open>Status.LastUpdated\<close> is the current time if the phase differs
  from the phase on entry, and is the value it had on entry if the phase is the same.
\<close>

theorem LastUpdated_iff_phase_changed:
  "LastUpdated (Status (reconcilePhase now m)) =
     (if Phase (Status (reconcilePhase now m)) \<noteq> Phase (Status m) then Some now
      else LastUpdated (Status m))"
  by (simp add: reconcilePhase_closed)

text \<open>
  The theorem at the example Machine (the phase changes from unset to Pending and the
  timestamp is set) and at the result (the phase stays and the timestamp stays).
\<close>

theorem LastUpdated_iff_phase_changed_witness:
  "Phase (Status (reconcilePhase 5 example_machine)) \<noteq> Phase (Status example_machine)
   \<and> LastUpdated (Status (reconcilePhase 5 example_machine)) = Some 5
   \<and> Phase (Status (reconcilePhase 7 (reconcilePhase 5 example_machine))) =
       Phase (Status (reconcilePhase 5 example_machine))
   \<and> LastUpdated (Status (reconcilePhase 7 (reconcilePhase 5 example_machine))) = Some 5"
  using LastUpdated_iff_phase_changed [of 5 example_machine]
    LastUpdated_iff_phase_changed [of 7 "reconcilePhase 5 example_machine"]
  by (simp add: reconcilePhase_closed derive_def example_machine_def Time_IsZero_def
      MachinePhasePending_def)

subsection \<open>C5: the last matching rule wins\<close>

text \<open>
  Claim C5 says that every status with \<open>NodeRef\<close> set and \<open>InfrastructureReady\<close> derives
  Running. The rules for Failed and Deleting come after the rule for Running and
  override it: a Machine with a node reference, ready infrastructure and a failure
  reason derives Failed.
\<close>

theorem Running_overridden_counterexample:
  "NodeRef (Status example_failed_node_machine) \<noteq> None
   \<and> InfrastructureReady (Status example_failed_node_machine)
   \<and> Phase (Status (reconcilePhase 5 example_failed_node_machine)) = MachinePhaseFailed
   \<and> Phase (Status (reconcilePhase 5 example_failed_node_machine)) \<noteq> MachinePhaseRunning"
  by (simp add: Phase_reconcilePhase derive_def example_failed_node_machine_def example_machine_def
      Time_IsZero_def MachinePhaseFailed_def MachinePhaseRunning_def)

text \<open>
  C5, amended: for every Machine with \<open>NodeRef\<close> set and \<open>InfrastructureReady\<close> true, no
  failure reason, no failure message and no deletion timestamp, reconcilePhase derives
  Running, whatever the phase on entry and \<open>BootstrapReady\<close> are; and a Machine that
  meets the Failed condition (a failure reason or message) and the Deleting condition (a
  deletion timestamp) derives Deleting.
\<close>

theorem Running_unless_Failed_or_Deleting:
  "(NodeRef (Status m) \<noteq> None \<and> InfrastructureReady (Status m)
      \<and> FailureReason (Status m) = None \<and> FailureMessage (Status m) = None
      \<and> Time_IsZero (DeletionTimestamp m)
    \<longrightarrow> Phase (Status (reconcilePhase now m)) = MachinePhaseRunning)
   \<and> ((FailureReason (Status m) \<noteq> None \<or> FailureMessage (Status m) \<noteq> None)
       \<and> \<not> Time_IsZero (DeletionTimestamp m)
    \<longrightarrow> Phase (Status (reconcilePhase now m)) = MachinePhaseDeleting)"
  by (simp add: Phase_reconcilePhase derive_def)

text \<open>
  The theorem at a Machine with a node reference, ready infrastructure, ready bootstrap
  and an unset phase, and at a Machine with a failure message and a deletion timestamp.
\<close>

theorem Running_unless_Failed_or_Deleting_witness:
  "NodeRef (Status example_running_machine) \<noteq> None
   \<and> InfrastructureReady (Status example_running_machine)
   \<and> FailureReason (Status example_running_machine) = None
   \<and> FailureMessage (Status example_running_machine) = None
   \<and> Time_IsZero (DeletionTimestamp example_running_machine)
   \<and> Phase (Status example_running_machine) = []
   \<and> Phase (Status (reconcilePhase 5 example_running_machine)) = MachinePhaseRunning
   \<and> FailureMessage (Status example_failed_deleting_machine) \<noteq> None
   \<and> \<not> Time_IsZero (DeletionTimestamp example_failed_deleting_machine)
   \<and> Phase (Status (reconcilePhase 5 example_failed_deleting_machine)) = MachinePhaseDeleting"
  using Running_unless_Failed_or_Deleting [of example_running_machine 5]
    Running_unless_Failed_or_Deleting [of example_failed_deleting_machine 5]
  by (simp add: example_running_machine_def example_failed_deleting_machine_def example_machine_def
      Time_IsZero_def)

subsection \<open>C6: the bootstrap shortcut\<close>

text \<open>
  C6: if the Machine has a bootstrap reference, \<open>Spec.Bootstrap.DataSecretName\<close> is
  non-nil on entry, and reconcileExternal of the reference succeeds without pausing, then
  reconcileBootstrap returns nil with \<open>Status.BootstrapReady\<close> set and the Machine
  otherwise as reconcileExternal left it, and the calls made are those of
  reconcileExternal: neither \<^verbatim>\<open>external.IsReady\<close> nor the read of
  \<^verbatim>\<open>status.dataSecretName\<close> is among them.
\<close>

theorem reconcileBootstrap_DataSecretName_shortcut:
  assumes "ConfigRef (Bootstrap (Spec m)) = Some ref"
    and "DataSecretName (Bootstrap (Spec m)) \<noteq> None"
    and "reconcileExternal env cluster m Bootstrap_ConfigRef ref = (Inr out, m1, calls)"
    and "\<not> Paused out"
  shows "reconcileBootstrap env cluster m =
           (None, m1\<lparr>Status := (Status m1)\<lparr>BootstrapReady := True\<rparr>\<rparr>, calls)
         \<and> (\<forall>obj. Called_IsReady obj \<notin> set calls)
         \<and> (\<forall>path. Called_NestedString path \<notin> set calls)"
proof -
  have "DataSecretName (Bootstrap (Spec m1)) \<noteq> None"
    using reconcileExternal_frame(5) [OF assms(3)] assms(2) by simp
  then have "reconcileBootstrap env cluster m =
           (None, m1\<lparr>Status := (Status m1)\<lparr>BootstrapReady := True\<rparr>\<rparr>, calls)"
    using assms(1,3,4) by (simp add: reconcileBootstrap_def)
  then show ?thesis
    using reconcileExternal_calls(1,2) [OF assms(3)] by simp
qed

text \<open>
  The theorem at an example Machine that carries a secret name, with a provider that
  reports not-ready.
\<close>

theorem reconcileBootstrap_DataSecretName_shortcut_witness:
  "ConfigRef (Bootstrap (Spec example_secret_machine)) = Some example_ref
   \<and> DataSecretName (Bootstrap (Spec example_secret_machine)) = Some ''secret-0''
   \<and> fst (reconcileExternal (example_env (Inr example_obj) (Inr False) (Inr []))
            example_cluster example_secret_machine Bootstrap_ConfigRef example_ref) =
       Inr \<lparr>Result = Some example_obj, Paused = False\<rparr>
   \<and> fst (reconcileBootstrap (example_env (Inr example_obj) (Inr False) (Inr []))
            example_cluster example_secret_machine) = None
   \<and> BootstrapReady (Status (fst (snd (reconcileBootstrap
         (example_env (Inr example_obj) (Inr False) (Inr [])) example_cluster example_secret_machine))))
   \<and> snd (snd (reconcileBootstrap (example_env (Inr example_obj) (Inr False) (Inr []))
            example_cluster example_secret_machine)) = example_calls"
proof -
  have m: "Namespace example_secret_machine = ''default''"
    "ClusterName (Spec example_secret_machine) = ''c1''"
    "ConfigRef (Bootstrap (Spec example_secret_machine)) = Some example_ref"
    "DataSecretName (Bootstrap (Spec example_secret_machine)) = Some ''secret-0''"
    by (simp_all add: example_secret_machine_def example_machine_def)
  note ext = example_reconcileExternal [OF m(1,2), of "Inr False" "Inr []" Bootstrap_ConfigRef]
  show ?thesis
    using reconcileBootstrap_DataSecretName_shortcut [OF m(3) _ ext] m(3,4)
    by (simp add: ext)
qed

subsection \<open>C7: a ready infrastructure object without a provider id\<close>

text \<open>
  C7: if reconcileExternal returns an object that is not paused and not being deleted,
  the object reports ready, and the read of \<^verbatim>\<open>spec.providerID\<close> gives the empty string
  (or reports the field absent), then reconcileInfrastructure returns an error whose
  cause is not a \<open>RequeueAfterError\<close>, and \<open>Spec.ProviderID\<close> is as it was on entry.
\<close>

theorem reconcileInfrastructure_empty_providerID:
  assumes "reconcileExternal env cluster m Spec_InfrastructureRef (InfrastructureRef (Spec m)) =
             (Inr out, m1, calls)"
    and "\<not> Paused out"
    and "Result out = Some infraConfig"
    and "Time_IsZero (obj_DeletionTimestamp infraConfig)"
    and "external_IsReady env infraConfig = Inr True"
    and "UnmarshalField_string env infraConfig [''spec'', ''providerID''] = Inr []
         \<or> UnmarshalField_string env infraConfig [''spec'', ''providerID''] =
             Inl ErrUnstructuredFieldNotFound"
  shows "let (ret, m', calls') = reconcileInfrastructure env cluster m;
             e = (if UnmarshalField_string env infraConfig [''spec'', ''providerID''] = Inr []
                  then Errorf (providerID_empty_msg env m)
                  else Wrapf ErrUnstructuredFieldNotFound (providerID_failed_msg env m))
         in ret = Some e \<and> \<not> HasRequeueAfterError e
            \<and> ProviderID (Spec m') = ProviderID (Spec m)"
proof -
  have names: "Name m1 = Name m" "Namespace m1 = Namespace m"
    "ProviderID (Spec m1) = ProviderID (Spec m)"
    using reconcileExternal_frame(1,2,4) [OF assms(1)] by simp_all
  show ?thesis
    using assms(6)
  proof
    assume "UnmarshalField_string env infraConfig [''spec'', ''providerID''] = Inr []"
    then show ?thesis
      using assms(1-5) names
      by (simp add: reconcileInfrastructure_def Let_def providerID_empty_msg_def)
  next
    assume "UnmarshalField_string env infraConfig [''spec'', ''providerID''] =
             Inl ErrUnstructuredFieldNotFound"
    then show ?thesis
      using assms(1-5) names
      by (simp add: reconcileInfrastructure_def Let_def providerID_failed_msg_def)
  qed
qed

text \<open>
  The theorem at the example Machine with a provider that is ready and has an empty
  provider id.
\<close>

theorem reconcileInfrastructure_empty_providerID_witness:
  "fst (reconcileExternal (example_env (Inr example_obj) (Inr True) (Inr []))
            example_cluster example_machine Spec_InfrastructureRef
            (InfrastructureRef (Spec example_machine))) =
       Inr \<lparr>Result = Some example_obj, Paused = False\<rparr>
   \<and> Time_IsZero (obj_DeletionTimestamp example_obj)
   \<and> external_IsReady (example_env (Inr example_obj) (Inr True) (Inr [])) example_obj = Inr True
   \<and> UnmarshalField_string (example_env (Inr example_obj) (Inr True) (Inr [])) example_obj
        [''spec'', ''providerID''] = Inr []
   \<and> fst (reconcileInfrastructure (example_env (Inr example_obj) (Inr True) (Inr []))
            example_cluster example_machine) =
       Some (Errorf (providerID_empty_msg (example_env (Inr example_obj) (Inr True) (Inr []))
                       example_machine))
   \<and> ProviderID (Spec (fst (snd (reconcileInfrastructure
         (example_env (Inr example_obj) (Inr True) (Inr [])) example_cluster example_machine)))) =
       ProviderID (Spec example_machine)"
proof -
  have m: "Namespace example_machine = ''default''" "ClusterName (Spec example_machine) = ''c1''"
    "InfrastructureRef (Spec example_machine) = example_ref"
    by (simp_all add: example_machine_def)
  note ext = example_reconcileExternal [OF m(1,2), of "Inr True" "Inr []" Spec_InfrastructureRef]
  have o: "Time_IsZero (obj_DeletionTimestamp example_obj)"
    "external_IsReady (example_env (Inr example_obj) (Inr True) (Inr [])) example_obj = Inr True"
    "UnmarshalField_string (example_env (Inr example_obj) (Inr True) (Inr [])) example_obj
        [''spec'', ''providerID''] = Inr []"
    by (simp_all add: example_obj_def example_env_def Time_IsZero_def)
  show ?thesis
    using reconcileInfrastructure_empty_providerID
      [of "example_env (Inr example_obj) (Inr True) (Inr [])" example_cluster example_machine
          "\<lparr>Result = Some example_obj, Paused = False\<rparr>"
          "store_ref Spec_InfrastructureRef example_ref example_machine" example_calls example_obj]
      o
    by (simp add: m(3) ext split: prod.splits)
qed

subsection \<open>C8: a paused object is left alone\<close>

text \<open>
  C8: if the fetched object is paused, reconcileExternal returns \<open>Paused = True\<close> with a
  nil error after three calls (the version contract, the fetch, the pause check): the
  owner reference is not set, nothing is patched, no watch is added, and the Machine's
  status is as it was. reconcileBootstrap and reconcileInfrastructure then return nil
  with the Machine and the calls exactly as reconcileExternal left them.
\<close>

theorem paused_short_circuit:
  assumes "normalize env ref = Inr v"
    and "external_Get env (ref\<lparr>ref_APIVersion := v\<rparr>) (Namespace m) = Inr obj"
    and "annotations_IsPaused env cluster obj"
  shows "let ref' = ref\<lparr>ref_APIVersion := v\<rparr>;
             calls = [Called_ConvertReferenceAPIContract ref, Called_Get ref' (Namespace m),
                      Called_IsPaused obj]
         in reconcileExternal env cluster m p ref =
              (Inr \<lparr>Result = None, Paused = True\<rparr>, store_ref p ref' m, calls)
            \<and> Status (store_ref p ref' m) = Status m
            \<and> (\<forall>x. Called_SetControllerReference x \<notin> set calls \<and> Called_Patch x \<notin> set calls
                    \<and> Called_Watch x \<notin> set calls)
            \<and> (ConfigRef (Bootstrap (Spec m)) = Some ref \<longrightarrow>
                  reconcileBootstrap env cluster m =
                    (None, store_ref Bootstrap_ConfigRef ref' m, calls))
            \<and> (InfrastructureRef (Spec m) = ref \<longrightarrow>
                  reconcileInfrastructure env cluster m =
                    (None, store_ref Spec_InfrastructureRef ref' m, calls))"
proof -
  have "ConfigRef (Bootstrap (Spec m)) = Some ref \<Longrightarrow>
          reconcileBootstrap env cluster m =
            (None, store_ref Bootstrap_ConfigRef (ref\<lparr>ref_APIVersion := v\<rparr>) m,
             [Called_ConvertReferenceAPIContract ref,
              Called_Get (ref\<lparr>ref_APIVersion := v\<rparr>) (Namespace m), Called_IsPaused obj])"
    by (simp add: reconcileBootstrap_def reconcileExternal_paused [OF assms])
  moreover have "InfrastructureRef (Spec m) = ref \<Longrightarrow>
          reconcileInfrastructure env cluster m =
            (None, store_ref Spec_InfrastructureRef (ref\<lparr>ref_APIVersion := v\<rparr>) m,
             [Called_ConvertReferenceAPIContract ref,
              Called_Get (ref\<lparr>ref_APIVersion := v\<rparr>) (Namespace m), Called_IsPaused obj])"
    using reconcileExternal_paused [OF assms, of Spec_InfrastructureRef]
    by (simp add: reconcileInfrastructure_def)
  ultimately show ?thesis
    by (simp add: Let_def reconcileExternal_paused [OF assms] store_ref_frame)
qed

text \<open>
  The theorem at the example Machine in a paused cluster.
\<close>

theorem paused_short_circuit_witness:
  "normalize (example_env (Inr example_obj) (Inr True) (Inr ''aws:///i-123'')) example_ref =
     Inr ''infrastructure.cluster.x-k8s.io/v1alpha3''
   \<and> external_Get (example_env (Inr example_obj) (Inr True) (Inr ''aws:///i-123'')) example_ref
        (Namespace example_machine) = Inr example_obj
   \<and> annotations_IsPaused (example_env (Inr example_obj) (Inr True) (Inr ''aws:///i-123''))
        (example_cluster\<lparr>cluster_Paused := True\<rparr>) example_obj
   \<and> ConfigRef (Bootstrap (Spec example_machine)) = Some example_ref
   \<and> InfrastructureRef (Spec example_machine) = example_ref
   \<and> reconcileExternal (example_env (Inr example_obj) (Inr True) (Inr ''aws:///i-123''))
        (example_cluster\<lparr>cluster_Paused := True\<rparr>) example_machine Spec_InfrastructureRef example_ref =
       (Inr \<lparr>Result = None, Paused = True\<rparr>, example_machine,
        [Called_ConvertReferenceAPIContract example_ref, Called_Get example_ref ''default'',
         Called_IsPaused example_obj])
   \<and> reconcileBootstrap (example_env (Inr example_obj) (Inr True) (Inr ''aws:///i-123''))
        (example_cluster\<lparr>cluster_Paused := True\<rparr>) example_machine =
       (None, example_machine,
        [Called_ConvertReferenceAPIContract example_ref, Called_Get example_ref ''default'',
         Called_IsPaused example_obj])
   \<and> reconcileInfrastructure (example_env (Inr example_obj) (Inr True) (Inr ''aws:///i-123''))
        (example_cluster\<lparr>cluster_Paused := True\<rparr>) example_machine =
       (None, example_machine,
        [Called_ConvertReferenceAPIContract example_ref, Called_Get example_ref ''default'',
         Called_IsPaused example_obj])"
proof -
  have h: "normalize (example_env (Inr example_obj) (Inr True) (Inr ''aws:///i-123'')) example_ref =
     Inr ''infrastructure.cluster.x-k8s.io/v1alpha3''"
    "external_Get (example_env (Inr example_obj) (Inr True) (Inr ''aws:///i-123''))
       (example_ref\<lparr>ref_APIVersion := ''infrastructure.cluster.x-k8s.io/v1alpha3''\<rparr>)
       (Namespace example_machine) = Inr example_obj"
    "annotations_IsPaused (example_env (Inr example_obj) (Inr True) (Inr ''aws:///i-123''))
        (example_cluster\<lparr>cluster_Paused := True\<rparr>) example_obj"
    by (simp_all add: example_env_def example_ref_def)
  have r: "example_ref\<lparr>ref_APIVersion := ''infrastructure.cluster.x-k8s.io/v1alpha3''\<rparr> = example_ref"
    by (simp add: example_ref_def)
  have m: "ConfigRef (Bootstrap (Spec example_machine)) = Some example_ref"
    "InfrastructureRef (Spec example_machine) = example_ref"
    "Namespace example_machine = ''default''"
    "store_ref Spec_InfrastructureRef example_ref example_machine = example_machine"
    "store_ref Bootstrap_ConfigRef example_ref example_machine = example_machine"
    by (simp_all add: example_machine_def)
  show ?thesis
    using paused_short_circuit [OF h, of Spec_InfrastructureRef] h(1,3)
    by (simp add: Let_def r m) (simp add: example_env_def)
qed

subsection \<open>C9: failure fields are never cleared\<close>

text \<open>
  C9: if \<open>Status.FailureReason\<close> is non-nil before reconcilePhase, reconcileExternal,
  reconcileBootstrap or reconcileInfrastructure, it is non-nil after it, whatever the
  collaborators answer; and the same holds of \<open>Status.FailureMessage\<close>.
\<close>

theorem failure_fields_sticky:
  "(FailureReason (Status m) \<noteq> None \<longrightarrow>
      FailureReason (Status (reconcilePhase now m)) \<noteq> None
      \<and> FailureReason (Status (fst (snd (reconcileExternal env cluster m p ref)))) \<noteq> None
      \<and> FailureReason (Status (fst (snd (reconcileBootstrap env cluster m)))) \<noteq> None
      \<and> FailureReason (Status (fst (snd (reconcileInfrastructure env cluster m)))) \<noteq> None)
   \<and> (FailureMessage (Status m) \<noteq> None \<longrightarrow>
      FailureMessage (Status (reconcilePhase now m)) \<noteq> None
      \<and> FailureMessage (Status (fst (snd (reconcileExternal env cluster m p ref)))) \<noteq> None
      \<and> FailureMessage (Status (fst (snd (reconcileBootstrap env cluster m)))) \<noteq> None
      \<and> FailureMessage (Status (fst (snd (reconcileInfrastructure env cluster m)))) \<noteq> None)"
proof -
  obtain r m' tr where ext: "reconcileExternal env cluster m p ref = (r, m', tr)"
    by (cases "reconcileExternal env cluster m p ref")
  have "FailureReason (Status (reconcilePhase now m)) = FailureReason (Status m)"
    "FailureMessage (Status (reconcilePhase now m)) = FailureMessage (Status m)"
    by (simp_all add: reconcilePhase_closed)
  then show ?thesis
    using reconcileExternal_frame(8,9) [OF ext] reconcileBootstrap_sticky [of m env cluster]
      reconcileInfrastructure_sticky [of m env cluster]
    by (simp add: ext)
qed

text \<open>
  The theorem at an example Machine with both failure fields set.
\<close>

theorem failure_fields_sticky_witness:
  "FailureReason (Status example_failed_machine) \<noteq> None
   \<and> FailureMessage (Status example_failed_machine) \<noteq> None
   \<and> FailureReason (Status (reconcilePhase 5 example_failed_machine)) \<noteq> None
   \<and> FailureMessage (Status (reconcilePhase 5 example_failed_machine)) \<noteq> None
   \<and> FailureReason (Status (fst (snd (reconcileExternal
        (example_env (Inr example_obj) (Inr True) (Inr ''aws:///i-123'')) example_cluster
        example_failed_machine Spec_InfrastructureRef example_ref)))) \<noteq> None
   \<and> FailureMessage (Status (fst (snd (reconcileBootstrap
        (example_env (Inr example_obj) (Inr True) (Inr ''aws:///i-123'')) example_cluster
        example_failed_machine)))) \<noteq> None
   \<and> FailureReason (Status (fst (snd (reconcileInfrastructure
        (example_env (Inr example_obj) (Inr True) (Inr ''aws:///i-123'')) example_cluster
        example_failed_machine)))) \<noteq> None
   \<and> FailureMessage (Status (fst (snd (reconcileInfrastructure
        (example_env (Inr example_obj) (Inr True) (Inr ''aws:///i-123'')) example_cluster
        example_failed_machine)))) \<noteq> None"
  using failure_fields_sticky
    [of example_failed_machine 5 "example_env (Inr example_obj) (Inr True) (Inr ''aws:///i-123'')"
        example_cluster Spec_InfrastructureRef example_ref]
  by (simp add: example_failed_machine_def example_machine_def)

subsection \<open>C10: readiness is written before it is checked\<close>

text \<open>
  C10: if reconcileExternal returns an object that is not paused and not being deleted
  and \<^verbatim>\<open>external.IsReady\<close> reports a value, then after reconcileInfrastructure
  \<open>Status.InfrastructureReady\<close> is that value; and if the value is false, the function
  returns a \<open>RequeueAfterError\<close> of \<open>externalReadyWait\<close> with the flag already false, the
  Machine otherwise as reconcileExternal left it.
\<close>

theorem reconcileInfrastructure_writes_readiness:
  assumes "reconcileExternal env cluster m Spec_InfrastructureRef (InfrastructureRef (Spec m)) =
             (Inr out, m1, calls)"
    and "\<not> Paused out"
    and "Result out = Some infraConfig"
    and "Time_IsZero (obj_DeletionTimestamp infraConfig)"
    and "external_IsReady env infraConfig = Inr ready"
  shows "InfrastructureReady (Status (fst (snd (reconcileInfrastructure env cluster m)))) = ready
         \<and> (\<not> ready \<longrightarrow>
              reconcileInfrastructure env cluster m =
                (Some (Wrapf (RequeueAfterError externalReadyWait) (infra_not_ready_msg env m)),
                 m1\<lparr>Status := (Status m1)\<lparr>InfrastructureReady := False\<rparr>\<rparr>,
                 calls @ [Called_IsReady infraConfig])
              \<and> HasRequeueAfterError
                  (Wrapf (RequeueAfterError externalReadyWait) (infra_not_ready_msg env m)))"
proof -
  have names: "Name m1 = Name m" "Namespace m1 = Namespace m"
    using reconcileExternal_frame(1,2) [OF assms(1)] by simp_all
  show ?thesis
    using assms names
    by (auto simp: reconcileInfrastructure_def Let_def infra_not_ready_msg_def
        split: sum.splits option.splits prod.splits)
qed

text \<open>
  The theorem at the ready example Machine with a provider that reports not-ready: the
  flag goes from true to false.
\<close>

theorem reconcileInfrastructure_writes_readiness_witness:
  "InfrastructureReady (Status example_ready_machine)
   \<and> fst (reconcileExternal (example_env (Inr example_obj) (Inr False) (Inr ''aws:///i-123''))
            example_cluster example_ready_machine Spec_InfrastructureRef
            (InfrastructureRef (Spec example_ready_machine))) =
       Inr \<lparr>Result = Some example_obj, Paused = False\<rparr>
   \<and> Time_IsZero (obj_DeletionTimestamp example_obj)
   \<and> external_IsReady (example_env (Inr example_obj) (Inr False) (Inr ''aws:///i-123''))
        example_obj = Inr False
   \<and> \<not> InfrastructureReady (Status (fst (snd (reconcileInfrastructure
         (example_env (Inr example_obj) (Inr False) (Inr ''aws:///i-123''))
         example_cluster example_ready_machine))))
   \<and> fst (reconcileInfrastructure (example_env (Inr example_obj) (Inr False) (Inr ''aws:///i-123''))
            example_cluster example_ready_machine) =
       Some (Wrapf (RequeueAfterError externalReadyWait)
              (infra_not_ready_msg (example_env (Inr example_obj) (Inr False) (Inr ''aws:///i-123''))
                 example_ready_machine))"
proof -
  have m: "Namespace example_ready_machine = ''default''"
    "ClusterName (Spec example_ready_machine) = ''c1''"
    "InfrastructureRef (Spec example_ready_machine) = example_ref"
    "InfrastructureReady (Status example_ready_machine)"
    by (simp_all add: example_ready_machine_def example_machine_def)
  note ext = example_reconcileExternal [OF m(1,2), of "Inr False" "Inr ''aws:///i-123''"
      Spec_InfrastructureRef]
  have o: "Time_IsZero (obj_DeletionTimestamp example_obj)"
    "external_IsReady (example_env (Inr example_obj) (Inr False) (Inr ''aws:///i-123''))
        example_obj = Inr False"
    by (simp_all add: example_obj_def example_env_def Time_IsZero_def)
  show ?thesis
    using reconcileInfrastructure_writes_readiness
      [of "example_env (Inr example_obj) (Inr False) (Inr ''aws:///i-123'')" example_cluster
          example_ready_machine "\<lparr>Result = Some example_obj, Paused = False\<rparr>"
          "store_ref Spec_InfrastructureRef example_ref example_ready_machine" example_calls
          example_obj False]
      o m(4)
    by (simp add: m(3) ext)
qed

end
